theory Spec2Isabelle
  imports Main
begin

section \<open>JavaScript values\<close>

text \<open>
  The values the Notion client handles are the results of \<^verbatim>\<open>JSON.parse\<close>, plus
  \<^verbatim>\<open>undefined\<close> for a property that is not there. JSON numbers are modelled as
  integers (Notion's \<^verbatim>\<open>unique_id.number\<close> is one); an object is the list of its
  own properties, each key once, as \<^verbatim>\<open>JSON.parse\<close> leaves it.
\<close>

datatype jsval =
    JUndefined
  | JNull
  | JBool bool
  | JNum int
  | JStr string
  | JArr "jsval list"
  | JObj "(string \<times> jsval) list"

text \<open>A JavaScript number that may be \<^verbatim>\<open>NaN\<close>: \<open>None\<close> is \<^verbatim>\<open>NaN\<close>.\<close>

type_synonym number = "int option"

text \<open>
  What the code can throw: the rejection of the request promise (a network error, or the
  \<^verbatim>\<open>SyntaxError\<close> of \<^verbatim>\<open>JSON.parse\<close>), and the \<^verbatim>\<open>TypeError\<close> of a property
  read on \<^verbatim>\<open>null\<close> or \<^verbatim>\<open>undefined\<close> or of a call of something that is no function,
  and the \<^verbatim>\<open>RangeError\<close> of a call with more arguments than the engine accepts.
  Each carries its \<^verbatim>\<open>message\<close>.
\<close>

datatype error = FetchError string | TypeError string | RangeError string

fun message :: "error \<Rightarrow> string" where
  "message (FetchError m) = m"
| "message (TypeError m) = m"
| "message (RangeError m) = m"

text \<open>\<^verbatim>\<open>if (v)\<close>, \<^verbatim>\<open>v || d\<close>, \<^verbatim>\<open>v ? a : b\<close>: arrays and objects are always truthy.\<close>

fun truthy :: "jsval \<Rightarrow> bool" where
  "truthy JUndefined = False"
| "truthy JNull = False"
| "truthy (JBool b) = b"
| "truthy (JNum n) = (n \<noteq> 0)"
| "truthy (JStr s) = (s \<noteq> [])"
| "truthy (JArr xs) = True"
| "truthy (JObj kvs) = True"

definition js_or :: "jsval \<Rightarrow> jsval \<Rightarrow> jsval" where
  "js_or v d = (if truthy v then v else d)"

fun nullish :: "jsval \<Rightarrow> bool" where
  "nullish JUndefined = True"
| "nullish JNull = True"
| "nullish v = False"

text \<open>
  \<open>own v k\<close> is \<^verbatim>\<open>v.k\<close> for a \<open>v\<close> that is neither \<^verbatim>\<open>null\<close> nor
  \<^verbatim>\<open>undefined\<close>, for the property names this program reads (none of them is a
  property of a number, boolean, string or array, or inherited by an object).
\<close>

fun own :: "jsval \<Rightarrow> string \<Rightarrow> jsval" where
  "own (JObj kvs) k = (case map_of kvs k of None \<Rightarrow> JUndefined | Some v \<Rightarrow> v)"
| "own v k = JUndefined"

text \<open>\<^verbatim>\<open>v?.k\<close>: \<^verbatim>\<open>undefined\<close> when \<open>v\<close> is \<^verbatim>\<open>null\<close> or \<^verbatim>\<open>undefined\<close>.\<close>

definition opt :: "jsval \<Rightarrow> string \<Rightarrow> jsval" where
  "opt v k = (if nullish v then JUndefined else own v k)"

text \<open>
  \<^verbatim>\<open>v?.[0]\<close>: the first element of an array, the first character of a string,
  the property \<^verbatim>\<open>"0"\<close> of an object.
\<close>

fun opt0 :: "jsval \<Rightarrow> jsval" where
  "opt0 (JArr xs) = (case xs of [] \<Rightarrow> JUndefined | x # _ \<Rightarrow> x)"
| "opt0 (JStr s) = (case s of [] \<Rightarrow> JUndefined | c # _ \<Rightarrow> JStr [c])"
| "opt0 (JObj kvs) = own (JObj kvs) ''0''"
| "opt0 v = JUndefined"

section \<open>Mapping a raw record to a task\<close>

text \<open>
  The object the callback of \<^verbatim>\<open>response.results.map\<close> returns
  (\<^verbatim>\<open>fetchAllNotionTasks\<close> of the widget module). A field holds whatever value the
  raw record had there when that value is truthy, so the fields are JavaScript values.
\<close>

record task =
  task_id :: jsval
  idNumber :: jsval
  name :: jsval
  status :: jsval
  priority :: jsval
  role :: jsval
  dueDate :: jsval
  pastDue :: jsval
  summary :: jsval

text \<open>The server's copy of the function adds one field, \<^verbatim>\<open>taskType\<close>.\<close>

record server_task = task +
  taskType :: jsval

text \<open>
  \<^verbatim>\<open>task.properties\<close> throws when \<open>task\<close> is \<^verbatim>\<open>null\<close>; \<^verbatim>\<open>props.Status\<close>, the
  first read from \<open>props\<close>, throws when \<open>props\<close> is \<^verbatim>\<open>null\<close> or \<^verbatim>\<open>undefined\<close>.
  Every later read is guarded by \<^verbatim>\<open>?.\<close> or is a read from the same \<open>props\<close>.
  The messages are V8's.
\<close>

definition task_status :: "jsval \<Rightarrow> jsval" where
  "task_status props =
     (if truthy (opt (opt (own props ''Status'') ''status'') ''name'')
      then opt (opt (own props ''Status'') ''status'') ''name''
      else if truthy (opt (opt (own props ''Status'') ''select'') ''name'')
      then opt (opt (own props ''Status'') ''select'') ''name''
      else JStr ''No Status'')"

definition map_task :: "jsval \<Rightarrow> error + task" where
  "map_task t =
     (if nullish t
      then Inl (TypeError (if t = JNull
             then ''Cannot read properties of null (reading 'properties')''
             else ''Cannot read properties of undefined (reading 'properties')''))
      else let props = own t ''properties'' in
        if nullish props
        then Inl (TypeError (if props = JNull
               then ''Cannot read properties of null (reading 'Status')''
               else ''Cannot read properties of undefined (reading 'Status')''))
        else Inr \<lparr>
          task_id = own t ''id'',
          idNumber = js_or (opt (opt (own props ''ID'') ''unique_id'') ''number'') (JNum 0),
          name = js_or (opt (opt0 (opt (own props ''Task name'') ''title'')) ''plain_text'')
                   (JStr ''Untitled''),
          status = task_status props,
          priority = js_or (opt (opt (own props ''Priority'') ''select'') ''name'') (JStr ''Medium''),
          role = js_or (opt (opt (own props ''Role'') ''select'') ''name'') (JStr ''Unassigned''),
          dueDate = js_or (opt (opt (own props ''Due date'') ''date'') ''start'') JNull,
          pastDue = js_or (opt (opt (own props ''Past due'') ''formula'') ''boolean'') (JBool False),
          summary = js_or (opt (opt0 (opt (own props ''Summary'') ''rich_text'')) ''plain_text'')
                      (JStr '''') \<rparr>)"

definition map_server_task :: "jsval \<Rightarrow> error + server_task" where
  "map_server_task t =
     (case map_task t of
        Inl e \<Rightarrow> Inl e
      | Inr r \<Rightarrow> Inr (task.extend r (server_task.fields
          (js_or (opt (opt (own (own t ''properties'') ''Task type'') ''select'') ''name'')
             (JStr ''Task'')))))"

text \<open>\<^verbatim>\<open>xs.map(f)\<close> with a callback that may throw: the first throw ends the map.\<close>

fun map_err :: "('a \<Rightarrow> error + 'b) \<Rightarrow> 'a list \<Rightarrow> error + 'b list" where
  "map_err f [] = Inr []"
| "map_err f (x # xs) =
     (case f x of
        Inl e \<Rightarrow> Inl e
      | Inr y \<Rightarrow> (case map_err f xs of Inl e \<Rightarrow> Inl e | Inr ys \<Rightarrow> Inr (y # ys)))"

section \<open>The paginated fetch\<close>

text \<open>
  The query endpoint is a collaborator: \<open>query n c\<close> is the outcome of the request
  issued when \<open>n\<close> requests have been issued before it, with start cursor \<open>c\<close>
  (\<open>None\<close>: the body carries no cursor). \<open>Inl\<close> is a rejected promise, \<open>Inr\<close> the
  parsed response.
\<close>

type_synonym upstream = "nat \<Rightarrow> jsval option \<Rightarrow> error + jsval"

text \<open>
  The tasks of one response: \<^verbatim>\<open>response.results\<close> throws on a \<^verbatim>\<open>null\<close> response;
  a truthy \<^verbatim>\<open>results\<close> that is no array has no \<^verbatim>\<open>map\<close>.
\<close>

definition page_tasks :: "(jsval \<Rightarrow> error + 'a) \<Rightarrow> jsval \<Rightarrow> error + 'a list" where
  "page_tasks mapper response =
     (if nullish response
      then Inl (TypeError (if response = JNull
             then ''Cannot read properties of null (reading 'results')''
             else ''Cannot read properties of undefined (reading 'results')''))
      else if truthy (own response ''results'')
      then (case own response ''results'' of
              JArr recs \<Rightarrow> map_err mapper recs
            | _ \<Rightarrow> Inl (TypeError ''response.results.map is not a function''))
      else Inr [])"

text \<open>
  \<^verbatim>\<open>allTasks.push(...tasks)\<close> spreads the page into the arguments of one call, and
  the engine throws a \<^verbatim>\<open>RangeError\<close> when there are too many. The largest number of
  arguments it accepts depends on the engine and its stack: it is the parameter
  \<open>maxArgs\<close>. The message is V8's.
\<close>

definition push_all :: "nat \<Rightarrow> 'a list \<Rightarrow> 'a list \<Rightarrow> error + 'a list" where
  "push_all maxArgs allTasks tasks =
     (if length tasks > maxArgs then Inl (RangeError ''Maximum call stack size exceeded'')
      else Inr (allTasks @ tasks))"

text \<open>
  The \<^verbatim>\<open>while\<close> loop of \<^verbatim>\<open>fetchAllNotionTasks\<close>, with the request counter threaded
  through. A response without \<^verbatim>\<open>results\<close> has no tasks and nothing is pushed; pushing
  no task changes nothing and cannot throw. The loop need not end (an upstream that sends empty pages with
  \<^verbatim>\<open>has_more\<close> set): \<open>None\<close> is a pass that never returns.
\<close>

partial_function (option) fetch_pages ::
  "nat \<Rightarrow> (jsval \<Rightarrow> error + 'a) \<Rightarrow> upstream \<Rightarrow> nat \<Rightarrow> 'a list \<Rightarrow> jsval \<Rightarrow> jsval
     \<Rightarrow> ((error + 'a list) \<times> nat) option"
where
  "fetch_pages maxArgs mapper query n allTasks hasMore nextCursor =
     (if truthy hasMore \<and> length allTasks < 3000 then
        (case query n (if truthy nextCursor then Some nextCursor else None) of
           Inl e \<Rightarrow> Some (Inl e, Suc n)
         | Inr response \<Rightarrow>
             (case page_tasks mapper response of
                Inl e \<Rightarrow> Some (Inl e, Suc n)
              | Inr tasks \<Rightarrow>
                  (case push_all maxArgs allTasks tasks of
                     Inl e \<Rightarrow> Some (Inl e, Suc n)
                   | Inr allTasks' \<Rightarrow>
                       fetch_pages maxArgs mapper query (Suc n) allTasks'
                         (own response ''has_more'') (own response ''next_cursor''))))
      else Some (Inr allTasks, n))"

definition fetchAllNotionTasks ::
  "nat \<Rightarrow> upstream \<Rightarrow> nat \<Rightarrow> ((error + task list) \<times> nat) option" where
  "fetchAllNotionTasks maxArgs query n =
     fetch_pages maxArgs map_task query n [] (JBool True) JNull"

definition fetchAllNotionTasks_server ::
  "nat \<Rightarrow> upstream \<Rightarrow> nat \<Rightarrow> ((error + server_task list) \<times> nat) option" where
  "fetchAllNotionTasks_server maxArgs query n =
     fetch_pages maxArgs map_server_task query n [] (JBool True) JNull"

section \<open>The cached statistics\<close>

text \<open>
  The payload of \<^verbatim>\<open>getDWEStats\<close>. \<^verbatim>\<open>activeTasks\<close>, \<^verbatim>\<open>cached\<close> and \<^verbatim>\<open>error\<close>
  are absent from some payloads (\<open>None\<close>). \<^verbatim>\<open>lastUpdated\<close> is kept as the clock
  reading whose ISO rendering the code stores.
\<close>

record stats =
  total :: number
  completed :: nat
  inProgress :: nat
  remaining :: number
  maxId :: number
  activeTasks :: "nat option"
  lastUpdated :: int
  cached :: "bool option"
  error :: "string option"

text \<open>
  The module's variables \<^verbatim>\<open>cachedStats\<close> and \<^verbatim>\<open>cacheTime\<close>, and the number of
  requests issued to the query endpoint so far.
\<close>

record widget =
  cachedStats :: "stats option"
  cacheTime :: int
  requests :: nat

definition CACHE_DURATION :: int where
  "CACHE_DURATION = 5 * 60 * 1000"

text \<open>
  \<^verbatim>\<open>Math.max\<close> converts its arguments to numbers. The conversion of a string, an
  array or an object is not modelled: it is the parameter \<open>coerce\<close>.
\<close>

fun to_number :: "(jsval \<Rightarrow> number) \<Rightarrow> jsval \<Rightarrow> number" where
  "to_number coerce (JNum n) = Some n"
| "to_number coerce (JBool b) = Some (if b then 1 else 0)"
| "to_number coerce JNull = Some 0"
| "to_number coerce JUndefined = None"
| "to_number coerce v = coerce v"

fun math_max :: "number \<Rightarrow> number \<Rightarrow> number" where
  "math_max (Some a) (Some b) = Some (max a b)"
| "math_max a b = None"

fun num_add :: "number \<Rightarrow> number \<Rightarrow> number" where
  "num_add (Some a) (Some b) = Some (a + b)"
| "num_add a b = None"

fun num_sub :: "number \<Rightarrow> number \<Rightarrow> number" where
  "num_sub (Some a) (Some b) = Some (a - b)"
| "num_sub a b = None"

definition is_completed :: "task \<Rightarrow> bool" where
  "is_completed t \<longleftrightarrow>
     status t = JStr ''Done'' \<or> status t = JStr ''Completed'' \<or>
     status t = JStr ''Complete'' \<or> status t = JStr ''Review''"

definition is_inProgress :: "task \<Rightarrow> bool" where
  "is_inProgress t \<longleftrightarrow> status t = JStr ''In Progress'' \<or> status t = JStr ''In progress''"

definition max_id :: "(jsval \<Rightarrow> number) \<Rightarrow> task list \<Rightarrow> number" where
  "max_id coerce allTasks =
     foldl (\<lambda>mx t. math_max mx (to_number coerce (js_or (idNumber t) (JNum 0)))) (Some 0) allTasks"

text \<open>The object stored in \<^verbatim>\<open>cachedStats\<close> after a successful fetch.\<close>

definition fresh_stats :: "(jsval \<Rightarrow> number) \<Rightarrow> task list \<Rightarrow> int \<Rightarrow> stats" where
  "fresh_stats coerce allTasks stamp =
     \<lparr> total = max_id coerce allTasks,
       completed = length (filter is_completed allTasks),
       inProgress = length (filter is_inProgress allTasks),
       remaining = num_sub (max_id coerce allTasks)
                     (Some (int (length (filter is_completed allTasks)))),
       maxId = max_id coerce allTasks,
       activeTasks = Some (length allTasks),
       lastUpdated = stamp,
       cached = None,
       error = None \<rparr>"

text \<open>The hard-coded payload of the two fallback returns, with its error text.\<close>

definition baseline :: "string \<Rightarrow> int \<Rightarrow> stats" where
  "baseline msg stamp =
     \<lparr> total = Some 1020,
       completed = 562,
       inProgress = 4,
       remaining = Some 458,
       maxId = Some 1020,
       activeTasks = None,
       lastUpdated = stamp,
       cached = None,
       error = Some msg \<rparr>"

text \<open>
  \<^verbatim>\<open>getDWEStats\<close>: \<open>apiKey\<close> is \<^verbatim>\<open>NOTION_API_KEY\<close>, \<open>now\<close> the reading of
  \<^verbatim>\<open>Date.now()\<close>, \<open>stamp\<close> the later reading of \<^verbatim>\<open>new Date()\<close> that dates the
  payload, \<open>maxArgs\<close> the engine's limit on the arguments of a call. The result is the payload and the module's state after the call; \<open>None\<close>
  when the fetch never returns.
\<close>

definition getDWEStats ::
  "string \<Rightarrow> (jsval \<Rightarrow> number) \<Rightarrow> nat \<Rightarrow> upstream \<Rightarrow> int \<Rightarrow> int \<Rightarrow> widget
     \<Rightarrow> (stats \<times> widget) option"
where
  "getDWEStats apiKey coerce maxArgs query now stamp w =
     (if cachedStats w \<noteq> None \<and> now - cacheTime w < CACHE_DURATION
      then Some ((the (cachedStats w))\<lparr>cached := Some True\<rparr>, w)
      else if apiKey = []
      then Some (baseline ''Notion API key not configured'' stamp, w)
      else
        (case fetchAllNotionTasks maxArgs query (requests w) of
           None \<Rightarrow> None
         | Some (Inr allTasks, n) \<Rightarrow>
             Some (fresh_stats coerce allTasks stamp,
                   w\<lparr>cachedStats := Some (fresh_stats coerce allTasks stamp),
                     cacheTime := now, requests := n\<rparr>)
         | Some (Inl e, n) \<Rightarrow>
             Some (case cachedStats w of
                     Some c \<Rightarrow> c
                   | None \<Rightarrow> baseline (message e) stamp,
                   w\<lparr>requests := n\<rparr>)))"

section \<open>Strings\<close>

text \<open>
  A string is the list of its code units, taken below 256. \<open>is_space\<close> is the class
  \<^verbatim>\<open>\s\<close> there, which is also the white space \<^verbatim>\<open>parseInt\<close> skips.
\<close>

definition is_space :: "char \<Rightarrow> bool" where
  "is_space c \<longleftrightarrow> c \<in> set [CHR 0x09, CHR 0x0A, CHR 0x0B, CHR 0x0C, CHR 0x0D, CHR 0x20, CHR 0xA0]"

text \<open>
  \<^verbatim>\<open>s.split(/\s+/)\<close>: the pieces between the maximal runs of white space. A run at
  the start or at the end leaves an empty piece there; the empty string gives one empty
  piece.
\<close>

fun split_ws :: "string \<Rightarrow> string list" where
  "split_ws [] = [[]]"
| "split_ws (c # cs) =
     (if is_space c then
        (if cs \<noteq> [] \<and> is_space (hd cs) then split_ws cs else [] # split_ws cs)
      else (case split_ws cs of [] \<Rightarrow> [[c]] | f # fs \<Rightarrow> (c # f) # fs))"

definition startsWith :: "string \<Rightarrow> string \<Rightarrow> bool" where
  "startsWith s p \<longleftrightarrow> take (length p) s = p"

text \<open>\<^verbatim>\<open>s.replace(p, r)\<close> with a string pattern: the first occurrence only.\<close>

fun replace_first :: "string \<Rightarrow> string \<Rightarrow> string \<Rightarrow> string" where
  "replace_first [] p r = (if p = [] then r else [])"
| "replace_first (c # cs) p r =
     (if startsWith (c # cs) p then r @ drop (length p) (c # cs)
      else c # replace_first cs p r)"

definition str_includes :: "string \<Rightarrow> char \<Rightarrow> bool" where
  "str_includes s c \<longleftrightarrow> c \<in> set s"

text \<open>The value of a digit in the radix, if it is one.\<close>

definition digit_of :: "nat \<Rightarrow> char \<Rightarrow> nat option" where
  "digit_of radix c =
     (let k = (of_char c :: nat);
          v = (if 48 \<le> k \<and> k \<le> 57 then Some (k - 48)
               else if 97 \<le> k \<and> k \<le> 102 then Some (k - 87)
               else if 65 \<le> k \<and> k \<le> 70 then Some (k - 55)
               else None)
      in case v of None \<Rightarrow> None | Some d \<Rightarrow> if d < radix then Some d else None)"

text \<open>
  \<^verbatim>\<open>parseInt(s)\<close> with no radix: leading white space, a sign, a \<^verbatim>\<open>0x\<close> prefix for
  radix 16, then the longest run of digits; \<^verbatim>\<open>NaN\<close> when that run is empty. The value
  is the exact integer (a double is exact below \<open>2 ^ 53\<close>).
\<close>

definition parseInt :: "string \<Rightarrow> number" where
  "parseInt s =
     (let s0 = dropWhile is_space s;
          neg = (s0 \<noteq> [] \<and> hd s0 = CHR ''-'');
          s1 = (if s0 \<noteq> [] \<and> (hd s0 = CHR ''-'' \<or> hd s0 = CHR ''+'') then tl s0 else s0);
          hex = (startsWith s1 ''0x'' \<or> startsWith s1 ''0X'');
          radix = (if hex then 16 else 10);
          s2 = (if hex then drop 2 s1 else s1);
          ds = takeWhile (\<lambda>c. digit_of radix c \<noteq> None) s2;
          v = foldl (\<lambda>a c. a * int radix + int (the (digit_of radix c))) 0 ds
      in if ds = [] then None else Some (if neg then - v else v))"

text \<open>The decimal digits of a natural number, and \<^verbatim>\<open>String(x)\<close> of an integer or \<^verbatim>\<open>NaN\<close>.\<close>

fun dec :: "nat \<Rightarrow> string" where
  "dec n = (if n < 10 then [char_of (48 + n)] else dec (n div 10) @ [char_of (48 + n mod 10)])"

definition num_to_string :: "number \<Rightarrow> string" where
  "num_to_string x =
     (case x of
        None \<Rightarrow> ''NaN''
      | Some i \<Rightarrow> if i < 0 then CHR ''-'' # dec (nat (- i)) else dec (nat i))"

definition padStart2 :: "string \<Rightarrow> string" where
  "padStart2 s = replicate (2 - length s) CHR ''0'' @ s"

section \<open>Dates\<close>

text \<open>
  A \<^verbatim>\<open>Date\<close> holds a time value: milliseconds since the epoch, or \<^verbatim>\<open>NaN\<close> for an
  invalid date. Local time is taken without offset and without daylight saving
  changes, so the local fields are read off the time value. The calendar is the
  proleptic Gregorian one, by the usual era arithmetic (days since 1970-01-01).
\<close>

type_synonym date = number

definition msPerDay :: int where
  "msPerDay = 86400000"

definition TimeClip :: "int \<Rightarrow> date" where
  "TimeClip t = (if \<bar>t\<bar> \<le> 8640000000000000 then Some t else None)"

definition Day :: "int \<Rightarrow> int" where
  "Day t = t div msPerDay"

definition TimeWithinDay :: "int \<Rightarrow> int" where
  "TimeWithinDay t = t mod msPerDay"

definition HourFromTime :: "int \<Rightarrow> int" where
  "HourFromTime t = (t div 3600000) mod 24"

definition MinFromTime :: "int \<Rightarrow> int" where
  "MinFromTime t = (t div 60000) mod 60"

definition SecFromTime :: "int \<Rightarrow> int" where
  "SecFromTime t = (t div 1000) mod 60"

definition msFromTime :: "int \<Rightarrow> int" where
  "msFromTime t = t mod 1000"

definition WeekDay :: "int \<Rightarrow> int" where
  "WeekDay t = (Day t + 4) mod 7"

text \<open>Year, month (0 to 11) and day of the month (1 to 31) of a day number.\<close>

definition civil_from_days :: "int \<Rightarrow> int \<times> int \<times> int" where
  "civil_from_days z0 =
     (let z = z0 + 719468;
          era = z div 146097;
          doe = z - era * 146097;
          yoe = (doe - doe div 1460 + doe div 36524 - doe div 146096) div 365;
          doy = doe - (365 * yoe + yoe div 4 - yoe div 100);
          mp = (5 * doy + 2) div 153;
          d = doy - (153 * mp + 2) div 5 + 1;
          m = (if mp < 10 then mp + 3 else mp - 9)
      in (yoe + era * 400 + (if m \<le> 2 then 1 else 0), m - 1, d))"

text \<open>The day number of the first day of a month (0 to 11) of a year.\<close>

definition days_from_civil :: "int \<Rightarrow> int \<Rightarrow> int" where
  "days_from_civil y0 m0 =
     (let m = m0 + 1;
          y = (if m \<le> 2 then y0 - 1 else y0);
          era = y div 400;
          yoe = y - era * 400;
          doy = (153 * (if m > 2 then m - 3 else m + 9) + 2) div 5;
          doe = yoe * 365 + yoe div 4 - yoe div 100 + doy
      in era * 146097 + doe - 719468)"

definition YearFromTime :: "int \<Rightarrow> int" where
  "YearFromTime t = fst (civil_from_days (Day t))"

definition MonthFromTime :: "int \<Rightarrow> int" where
  "MonthFromTime t = fst (snd (civil_from_days (Day t)))"

definition DateFromTime :: "int \<Rightarrow> int" where
  "DateFromTime t = snd (snd (civil_from_days (Day t)))"

text \<open>The getters: \<^verbatim>\<open>NaN\<close> on an invalid date.\<close>

definition getHours :: "date \<Rightarrow> number" where
  "getHours d = map_option HourFromTime d"

definition getMinutes :: "date \<Rightarrow> number" where
  "getMinutes d = map_option MinFromTime d"

definition getDate :: "date \<Rightarrow> number" where
  "getDate d = map_option DateFromTime d"

definition getMonth :: "date \<Rightarrow> number" where
  "getMonth d = map_option MonthFromTime d"

definition getDay :: "date \<Rightarrow> number" where
  "getDay d = map_option WeekDay d"

text \<open>
  The setters replace one field and renormalise, so a value out of the field's range
  carries into the next field. An invalid date or a \<^verbatim>\<open>NaN\<close> argument gives an
  invalid date.
\<close>

fun setMinutes :: "date \<Rightarrow> number \<Rightarrow> date" where
  "setMinutes (Some t) (Some m) =
     TimeClip (Day t * msPerDay
       + (HourFromTime t * 3600000 + m * 60000 + SecFromTime t * 1000 + msFromTime t))"
| "setMinutes d m = None"

fun setHours :: "date \<Rightarrow> number \<Rightarrow> date" where
  "setHours (Some t) (Some h) =
     TimeClip (Day t * msPerDay
       + (h * 3600000 + MinFromTime t * 60000 + SecFromTime t * 1000 + msFromTime t))"
| "setHours d h = None"

fun setDate :: "date \<Rightarrow> number \<Rightarrow> date" where
  "setDate (Some t) (Some dt) =
     TimeClip ((days_from_civil (YearFromTime t) (MonthFromTime t) + dt - 1) * msPerDay
       + TimeWithinDay t)"
| "setDate d dt = None"

text \<open>\<^verbatim>\<open>next <= now\<close>: false when \<open>next\<close> is invalid.\<close>

fun date_le :: "date \<Rightarrow> int \<Rightarrow> bool" where
  "date_le (Some t) now = (t \<le> now)"
| "date_le None now = False"

text \<open>\<^verbatim>\<open>a % b\<close> on integers: the remainder has the sign of the dividend.\<close>

fun js_rem :: "number \<Rightarrow> int \<Rightarrow> number" where
  "js_rem (Some a) b = (if b = 0 then None else Some (sgn a * (\<bar>a\<bar> mod \<bar>b\<bar>)))"
| "js_rem None b = None"

section \<open>The next run of a cron schedule\<close>

text \<open>
  \<^verbatim>\<open>calculateNextRun\<close> in its four steps. \<open>now\<close> is the time value of
  \<^verbatim>\<open>new Date()\<close>, \<open>next\<close> the date the steps move.

  Step 1, the minute field: the new \<open>next\<close> and \<^verbatim>\<open>hourModified\<close>. With an
  interval of 0 the quotient is infinite or \<^verbatim>\<open>NaN\<close> and \<^verbatim>\<open>nextMin\<close> is \<^verbatim>\<open>NaN\<close>.
\<close>

definition nextMin_of :: "number \<Rightarrow> int \<Rightarrow> number" where
  "nextMin_of interval currentMin =
     (case interval of
        None \<Rightarrow> None
      | Some i \<Rightarrow> if i = 0 then None else Some (currentMin div i * i + i))"

definition minute_step :: "string \<Rightarrow> int \<Rightarrow> date \<Rightarrow> date \<times> bool" where
  "minute_step minute now next =
     (if startsWith minute ''*/'' then
        (case nextMin_of (parseInt (replace_first minute ''*/'' [])) (MinFromTime now) of
           Some nextMin \<Rightarrow>
             if nextMin \<ge> 60
             then (setMinutes (setHours next (num_add (getHours next) (Some 1)))
                     (Some (nextMin - 60)), True)
             else (setMinutes next (Some nextMin), False)
         | None \<Rightarrow> (setMinutes next None, False))
      else if minute = ''*'' then (setMinutes next (Some (MinFromTime now + 1)), False)
      else (setMinutes next (parseInt minute), False))"

text \<open>Step 2, the hour field.\<close>

definition hour_step :: "string \<Rightarrow> string \<Rightarrow> bool \<Rightarrow> int \<Rightarrow> date \<Rightarrow> date" where
  "hour_step minute hour hourModified now next =
     (if startsWith hour ''*/'' then
        (if \<not> startsWith minute ''*/''
         then setMinutes
                (setHours next
                   (num_add (Some (HourFromTime now)) (parseInt (replace_first hour ''*/'' []))))
                (Some 0)
         else next)
      else if hour \<noteq> ''*'' then
        (if \<not> hourModified
         then (let next1 = setHours next (parseInt hour)
               in if date_le next1 now
                  then setDate next1 (num_add (getDate next1) (Some 1))
                  else next1)
         else next)
      else next)"

text \<open>Step 3, the day-of-week field.\<close>

definition dow_step :: "string \<Rightarrow> int \<Rightarrow> date \<Rightarrow> date" where
  "dow_step dayOfWeek now next =
     (if dayOfWeek \<noteq> ''*'' \<and> \<not> str_includes dayOfWeek CHR ''/'' then
        (let targetDay = parseInt dayOfWeek;
             currentDay = WeekDay now;
             daysUntil = js_rem (num_add (num_sub targetDay (Some currentDay)) (Some 7)) 7
         in if daysUntil = Some 0 \<and> date_le next now
            then setDate next (num_add (getDate next) (Some 7))
            else setDate next (num_add (getDate next) daysUntil))
      else next)"

text \<open>The candidate instant: \<open>next\<close> after the three steps, for the five fields.\<close>

definition candidate :: "string list \<Rightarrow> int \<Rightarrow> date" where
  "candidate parts now =
     (let minute = parts ! 0; hour = parts ! 1; dayOfWeek = parts ! 4;
          (next1, hourModified) = minute_step minute now (Some now)
      in dow_step dayOfWeek now (hour_step minute hour hourModified now next1))"

text \<open>
  Step 4, the label. \<^verbatim>\<open>toLocaleDateString('en-US', {weekday: 'short'})\<close> is the
  abbreviated English weekday, or \<^verbatim>\<open>Invalid Date\<close>.
\<close>

definition weekday_short :: "date \<Rightarrow> string" where
  "weekday_short d =
     (case d of
        None \<Rightarrow> ''Invalid Date''
      | Some t \<Rightarrow> [''Sun'', ''Mon'', ''Tue'', ''Wed'', ''Thu'', ''Fri'', ''Sat''] ! nat (WeekDay t))"

definition isToday :: "int \<Rightarrow> date \<Rightarrow> bool" where
  "isToday now next \<longleftrightarrow>
     getDate next = Some (DateFromTime now) \<and> getMonth next = Some (MonthFromTime now)"

definition isTomorrow :: "int \<Rightarrow> date \<Rightarrow> bool" where
  "isTomorrow now next \<longleftrightarrow> getDate next = Some (DateFromTime now + 1)"

definition dayLabel :: "int \<Rightarrow> date \<Rightarrow> string" where
  "dayLabel now next =
     (if isToday now next then []
      else if isTomorrow now next then ''Tomorrow ''
      else weekday_short next @ '' '')"

text \<open>\<^verbatim>\<open>hours % 12 || 12\<close>: 12 for 0 and for \<^verbatim>\<open>NaN\<close>.\<close>

definition displayHours :: "number \<Rightarrow> number" where
  "displayHours hours =
     (case js_rem hours 12 of
        None \<Rightarrow> Some 12
      | Some h \<Rightarrow> if h = 0 then Some 12 else Some h)"

text \<open>\<^verbatim>\<open>ampm.toLowerCase()\<close>, where \<^verbatim>\<open>ampm\<close> is \<^verbatim>\<open>'PM'\<close> from hour 12 on.\<close>

definition ampm_lower :: "number \<Rightarrow> string" where
  "ampm_lower hours =
     (case hours of None \<Rightarrow> ''am'' | Some h \<Rightarrow> if h \<ge> 12 then ''pm'' else ''am'')"

definition format_label :: "int \<Rightarrow> date \<Rightarrow> string" where
  "format_label now next =
     dayLabel now next @ num_to_string (displayHours (getHours next)) @ '':''
       @ padStart2 (num_to_string (getMinutes next)) @ ampm_lower (getHours next)"

definition calculateNextRun :: "string \<Rightarrow> int \<Rightarrow> string" where
  "calculateNextRun schedule now =
     (let parts = split_ws schedule
      in if length parts < 5 then ''Unknown'' else format_label now (candidate parts now))"

section \<open>Notions used in the statements\<close>

text \<open>A call that returns a value rather than throwing.\<close>

fun returns :: "error + 'a \<Rightarrow> bool" where
  "returns (Inl e) = False"
| "returns (Inr v) = True"

text \<open>The number of records in the \<^verbatim>\<open>results\<close> array of a request's outcome.\<close>

definition page_size :: "error + jsval \<Rightarrow> nat" where
  "page_size r =
     (case r of
        Inl e \<Rightarrow> 0
      | Inr response \<Rightarrow> (case own response ''results'' of JArr recs \<Rightarrow> length recs | _ \<Rightarrow> 0))"

text \<open>
  An outcome that keeps the loop going: a response with \<^verbatim>\<open>has_more\<close> set whose
  \<^verbatim>\<open>results\<close> is an array of at least one and at most \<open>p\<close> records, each of which
  the mapper accepts.
\<close>

definition steady_page :: "(jsval \<Rightarrow> error + 'a) \<Rightarrow> nat \<Rightarrow> error + jsval \<Rightarrow> bool" where
  "steady_page mapper p r =
     (case r of
        Inl e \<Rightarrow> False
      | Inr response \<Rightarrow>
          truthy (own response ''has_more'') \<and>
          (case own response ''results'' of
             JArr recs \<Rightarrow> recs \<noteq> [] \<and> length recs \<le> p \<and> list_all (\<lambda>r. returns (mapper r)) recs
           | _ \<Rightarrow> False))"

text \<open>The length of the accumulated list at loop exit, for a pass that returns one.\<close>

definition accumulated :: "((error + 'a list) \<times> nat) option \<Rightarrow> nat option" where
  "accumulated r = (case r of Some (Inr allTasks, n) \<Rightarrow> Some (length allTasks) | _ \<Rightarrow> None)"

section \<open>Concrete inputs\<close>

text \<open>A page object of the upstream with an id number and a status, and pages of it.\<close>

definition sample_record :: jsval where
  "sample_record =
     JObj [(''id'', JStr ''page-1''),
           (''properties'', JObj
              [(''ID'', JObj [(''unique_id'', JObj [(''number'', JNum 7)])]),
               (''Status'', JObj [(''status'', JObj [(''name'', JStr ''Done'')])])])]"

definition sample_page :: "nat \<Rightarrow> jsval" where
  "sample_page k =
     JObj [(''results'', JArr (replicate k sample_record)),
           (''has_more'', JBool True),
           (''next_cursor'', JStr ''cursor'')]"

text \<open>An upstream that always sends a full page of 100 records and says there is more.\<close>

definition full_pages :: upstream where
  "full_pages n c = Inr (sample_page 100)"

text \<open>The same with 70 records a page, fewer than the 100 asked for.\<close>

definition short_pages :: upstream where
  "short_pages n c = Inr (sample_page 70)"

text \<open>An upstream whose every request fails, and one that answers with a single last page.\<close>

definition failing :: upstream where
  "failing n c = Inl (FetchError ''connect ECONNREFUSED'')"

definition last_page :: upstream where
  "last_page n c =
     Inr (JObj [(''results'', JArr [sample_record]), (''has_more'', JBool False),
                (''next_cursor'', JNull)])"

text \<open>An upstream that sends empty pages and always says there is more.\<close>

definition empty_pages :: upstream where
  "empty_pages n c = Inr (JObj [(''results'', JArr []), (''has_more'', JBool True)])"

text \<open>A limit on the arguments of one call, of the order of V8's.\<close>

definition sample_maxArgs :: nat where
  "sample_maxArgs = 100000"

definition no_coercion :: "jsval \<Rightarrow> number" where
  "no_coercion v = None"

text \<open>The module before its first call, and with an entry cached at time 1000.\<close>

definition empty_widget :: widget where
  "empty_widget = \<lparr> cachedStats = None, cacheTime = 0, requests = 0 \<rparr>"

definition old_stats :: stats where
  "old_stats = fresh_stats no_coercion [] 1000"

definition stale_widget :: widget where
  "stale_widget = \<lparr> cachedStats = Some old_stats, cacheTime = 1000, requests = 1 \<rparr>"

text \<open>A raw record without \<^verbatim>\<open>properties\<close>.\<close>

definition bare_record :: jsval where
  "bare_record = JObj [(''id'', JStr ''page-1'')]"

text \<open>
  Instants of January 2024: Monday the 1st at 10:07, 10:52 and 14:00, and Wednesday
  the 31st at 14:00.
\<close>

definition monday_1007 :: int where
  "monday_1007 = 1704103620000"

definition monday_1052 :: int where
  "monday_1052 = 1704106320000"

definition monday_1400 :: int where
  "monday_1400 = 1704117600000"

definition jan31_1400 :: int where
  "jan31_1400 = 1706709600000"

section \<open>Properties of the paginated fetch\<close>

lemma map_err_total:
  "list_all (\<lambda>r. returns (f r)) xs \<Longrightarrow> \<exists>ys. map_err f xs = Inr ys \<and> length ys = length xs"
proof (induction xs)
  case Nil
  then show ?case by simp
next
  case (Cons x xs)
  then obtain ys where ys: "map_err f xs = Inr ys" "length ys = length xs" by auto
  from Cons.prems obtain y where "f x = Inr y" by (cases "f x") auto
  with ys show ?case by simp
qed

lemma page_tasks_steady:
  assumes "steady_page mapper p (Inr response)"
  shows "\<exists>ts. page_tasks mapper response = Inr ts \<and> ts \<noteq> [] \<and> length ts \<le> p
           \<and> length ts = page_size (Inr response) \<and> truthy (own response ''has_more'')"
proof -
  from assms obtain recs where r: "own response ''results'' = JArr recs" "recs \<noteq> []"
      "length recs \<le> p" "list_all (\<lambda>r. returns (mapper r)) recs"
      "truthy (own response ''has_more'')"
    by (auto simp: steady_page_def split: jsval.splits)
  from r(1) have nn: "\<not> nullish response" by (cases response) auto
  from map_err_total[OF r(4)] obtain ts where
      "map_err mapper recs = Inr ts" "length ts = length recs"
    by blast
  with r nn show ?thesis by (auto simp: page_tasks_def page_size_def)
qed

text \<open>
  The loop against an upstream that never stops, with pages the engine can push: it
  ends at the first page that brings the count to 3000, and page sizes that are
  multiples of \<open>k\<close> give a multiple of \<open>k\<close>.
\<close>

lemma fetch_pages_steady:
  assumes steady: "\<And>n c. steady_page mapper p (query n c)"
      and sizes: "\<And>n c. k dvd page_size (query n c)"
      and fit: "p \<le> maxArgs"
  shows "truthy hm \<Longrightarrow> length acc < 3000 \<Longrightarrow> k dvd length acc \<Longrightarrow>
         \<exists>all n'. fetch_pages maxArgs mapper query n acc hm cur = Some (Inr all, n')
            \<and> 3000 \<le> length all \<and> length all < 3000 + p \<and> k dvd length all"
proof (induction "3000 - length acc" arbitrary: acc n hm cur rule: less_induct)
  case less
  let ?c = "if truthy cur then Some cur else None"
  from steady[of n ?c] obtain response where q: "query n ?c = Inr response"
    by (cases "query n ?c") (auto simp: steady_page_def)
  with steady[of n ?c] have "steady_page mapper p (Inr response)" by simp
  from page_tasks_steady[OF this] obtain ts where ts: "page_tasks mapper response = Inr ts"
      "ts \<noteq> []" "length ts \<le> p" "length ts = page_size (Inr response)"
      "truthy (own response ''has_more'')"
    by blast
  from sizes[of n ?c] q ts(4) have kd: "k dvd length ts" by simp
  from ts(3) fit have push: "push_all maxArgs acc ts = Inr (acc @ ts)"
    by (simp add: push_all_def)
  have step: "fetch_pages maxArgs mapper query n acc hm cur =
      fetch_pages maxArgs mapper query (Suc n) (acc @ ts)
        (own response ''has_more'') (own response ''next_cursor'')"
    using less.prems(1,2) q ts(1) push by (subst fetch_pages.simps) simp
  show ?case
  proof (cases "length (acc @ ts) < 3000")
    case True
    have "3000 - length (acc @ ts) < 3000 - length acc" using ts(2) True by (cases ts) auto
    from less.hyps[OF this ts(5) True] kd less.prems(3) step show ?thesis by simp
  next
    case False
    have "fetch_pages maxArgs mapper query (Suc n) (acc @ ts)
            (own response ''has_more'') (own response ''next_cursor'')
        = Some (Inr (acc @ ts), Suc n)"
      using False by (subst fetch_pages.simps) simp
    with step False less.prems ts(3) kd show ?thesis by auto
  qed
qed

lemma returns_sample: "returns (map_task sample_record)"
  by (simp add: sample_record_def map_task_def)

lemma steady_sample: "0 < k \<Longrightarrow> k \<le> p \<Longrightarrow> steady_page map_task p (Inr (sample_page k))"
  by (simp add: steady_page_def sample_page_def list_all_iff returns_sample)

lemma size_sample: "page_size (Inr (sample_page k)) = k"
  by (simp add: page_size_def sample_page_def)

lemma fetch_failing:
  "fetchAllNotionTasks maxArgs failing n
     = Some (Inl (FetchError ''connect ECONNREFUSED''), Suc n)"
  unfolding fetchAllNotionTasks_def
  by (subst fetch_pages.simps) (simp add: failing_def)

lemma fetch_last_page:
  assumes "0 < maxArgs"
  shows "\<exists>t. fetchAllNotionTasks maxArgs last_page n = Some (Inr [t], Suc n)"
proof -
  obtain t where t: "map_task sample_record = Inr t"
    using returns_sample by (cases "map_task sample_record") auto
  have "fetch_pages maxArgs map_task last_page (Suc n) [t] (JBool False) JNull
          = Some (Inr [t], Suc n)"
    by (subst fetch_pages.simps) simp
  then show ?thesis
    unfolding fetchAllNotionTasks_def using assms
    by (subst fetch_pages.simps) (simp add: last_page_def page_tasks_def push_all_def t)
qed

text \<open>A page of more records than one call takes arguments ends the pass with the \<^verbatim>\<open>RangeError\<close>.\<close>

lemma oversized_page_throws:
  assumes "query n None = Inr (sample_page k)" and "maxArgs < k"
  shows "fetchAllNotionTasks maxArgs query n
           = Some (Inl (RangeError ''Maximum call stack size exceeded''), Suc n)"
proof -
  from assms(2) have "steady_page map_task k (Inr (sample_page k))"
    by (intro steady_sample) simp_all
  from page_tasks_steady[OF this] obtain ts where
      ts: "page_tasks map_task (sample_page k) = Inr ts" "length ts = k"
    by (auto simp: size_sample)
  with assms show ?thesis
    unfolding fetchAllNotionTasks_def
    by (subst fetch_pages.simps) (simp add: push_all_def)
qed

text \<open>Against empty pages with \<^verbatim>\<open>has_more\<close> set the loop never exits.\<close>

lemma empty_pages_never_return:
  assumes "fetch_pages maxArgs mapper empty_pages n acc hm cur = Some y"
  shows "\<not> (truthy hm \<and> length acc < 3000)"
proof -
  have "empty_pages = empty_pages \<longrightarrow> \<not> (truthy hm \<and> length acc < 3000)"
  proof (rule fetch_pages.raw_induct[where
        P = "\<lambda>maxArgs mapper query n acc hm cur y.
               query = empty_pages \<longrightarrow> \<not> (truthy hm \<and> length acc < 3000)",
        OF _ assms])
    fix f :: "nat \<Rightarrow> (jsval \<Rightarrow> error + 'a) \<Rightarrow> upstream \<Rightarrow> nat \<Rightarrow> 'a list \<Rightarrow> jsval \<Rightarrow> jsval
                \<Rightarrow> ((error + 'a list) \<times> nat) option"
    fix maxArgs mapper query n acc hm cur y
    assume ih: "\<And>a m q k xs h c z. f a m q k xs h c = Some z \<Longrightarrow>
                  q = empty_pages \<longrightarrow> \<not> (truthy h \<and> length xs < 3000)"
      and body: "(if truthy hm \<and> length acc < 3000
          then case query n (if truthy cur then Some cur else None) of
                 Inl e \<Rightarrow> Some (Inl e, Suc n)
               | Inr response \<Rightarrow>
                   (case page_tasks mapper response of
                      Inl e \<Rightarrow> Some (Inl e, Suc n)
                    | Inr tasks \<Rightarrow>
                        (case push_all maxArgs acc tasks of
                           Inl e \<Rightarrow> Some (Inl e, Suc n)
                         | Inr acc' \<Rightarrow>
                             f maxArgs mapper query (Suc n) acc'
                               (own response ''has_more'') (own response ''next_cursor'')))
          else Some (Inr acc, n)) = Some y"
    show "query = empty_pages \<longrightarrow> \<not> (truthy hm \<and> length acc < 3000)"
    proof (intro impI notI)
      assume q: "query = empty_pages" and c: "truthy hm \<and> length acc < 3000"
      with body have "f maxArgs mapper empty_pages (Suc n) acc (JBool True) JUndefined = Some y"
        by (simp add: empty_pages_def page_tasks_def push_all_def)
      from ih[OF this] c show False by simp
    qed
  qed
  then show ?thesis by simp
qed

lemma empty_pages_diverge: "fetchAllNotionTasks maxArgs empty_pages n = None"
proof (cases "fetchAllNotionTasks maxArgs empty_pages n")
  case None
  then show ?thesis .
next
  case (Some y)
  then have "fetch_pages maxArgs map_task empty_pages n [] (JBool True) JNull = Some y"
    by (simp add: fetchAllNotionTasks_def)
  from empty_pages_never_return[OF this] show ?thesis by simp
qed

text \<open>
  Claim C3, as stated: whenever the upstream keeps reporting \<^verbatim>\<open>has_more\<close>, the
  accumulated list has exactly 3000 records at loop exit, whatever the size of the pages.
  It fails for pages of 70 records: the loop tests the count before each request only,
  so the 43rd page is appended whole and the list has 3010 records.
\<close>

theorem cap_not_exact_counterexample:
  "truthy (own (sample_page 70) ''has_more'')
   \<and> accumulated (fetchAllNotionTasks sample_maxArgs short_pages 0) = Some 3010"
proof -
  have "\<exists>all n'. fetch_pages sample_maxArgs map_task short_pages 0 [] (JBool True) JNull
                   = Some (Inr all, n')
            \<and> 3000 \<le> length all \<and> length all < 3000 + 70 \<and> 70 dvd length all"
    by (rule fetch_pages_steady)
       (simp_all add: short_pages_def steady_sample size_sample sample_maxArgs_def)
  then obtain all n' where
      a: "fetchAllNotionTasks sample_maxArgs short_pages 0 = Some (Inr all, n')"
      "3000 \<le> length all" "length all < 3070" "70 dvd length all"
    by (auto simp: fetchAllNotionTasks_def)
  from a(2-4) have "length all = 3010" by presburger
  with a(1) show ?thesis by (simp add: accumulated_def sample_page_def)
qed

text \<open>
  Claim C3, amended: when the upstream keeps reporting \<^verbatim>\<open>has_more\<close> and every page
  holds at least one and at most \<open>p\<close> well-formed records, with \<open>p\<close> no more than the
  engine takes as the arguments of one call, the pass returns, and the accumulated list
  has at least 3000 and fewer than \<open>3000 + p\<close> records; it has exactly 3000 when every
  page holds exactly 100.
\<close>

theorem cap_reached_within_one_page:
  assumes "\<forall>n c. steady_page map_task p (query n c)"
      and "p \<le> maxArgs"
  shows "\<exists>all n'. fetchAllNotionTasks maxArgs query n = Some (Inr all, n')
           \<and> 3000 \<le> length all \<and> length all < 3000 + p
           \<and> ((\<forall>n c. page_size (query n c) = 100) \<longrightarrow> length all = 3000)"
proof -
  have "\<exists>all n'. fetch_pages maxArgs map_task query n [] (JBool True) JNull = Some (Inr all, n')
            \<and> 3000 \<le> length all \<and> length all < 3000 + p \<and> 1 dvd length all"
    by (rule fetch_pages_steady) (use assms in auto)
  then obtain all n' where a: "fetchAllNotionTasks maxArgs query n = Some (Inr all, n')"
      "3000 \<le> length all" "length all < 3000 + p"
    by (auto simp: fetchAllNotionTasks_def)
  have "length all = 3000" if h: "\<forall>n c. page_size (query n c) = 100"
  proof -
    have st: "steady_page map_task 100 (query n c)" for n c
      using assms(1)[rule_format, of n c] h[rule_format, of n c]
      by (auto simp: steady_page_def page_size_def split: sum.splits jsval.splits)
    from st[of 0 None] assms(1)[rule_format, of 0 None] h[rule_format, of 0 None]
    have "100 \<le> p"
      by (auto simp: steady_page_def page_size_def split: sum.splits jsval.splits)
    with assms(2) have fit: "100 \<le> maxArgs" by simp
    have "\<exists>all n'. fetch_pages maxArgs map_task query n [] (JBool True) JNull = Some (Inr all, n')
            \<and> 3000 \<le> length all \<and> length all < 3000 + 100 \<and> 100 dvd length all"
      by (rule fetch_pages_steady) (use st h fit in auto)
    with a(1) have "3000 \<le> length all" "length all < 3100" "100 dvd length all"
      by (auto simp: fetchAllNotionTasks_def)
    then show ?thesis by presburger
  qed
  with a show ?thesis by blast
qed

theorem cap_reached_within_one_page_witness:
  "accumulated (fetchAllNotionTasks sample_maxArgs full_pages 0) = Some 3000"
proof -
  have st: "\<forall>n c. steady_page map_task 100 (full_pages n c)"
    by (simp add: full_pages_def steady_sample)
  have fit: "100 \<le> sample_maxArgs" by (simp add: sample_maxArgs_def)
  have sz: "\<forall>n c. page_size (full_pages n c) = 100"
    by (simp add: full_pages_def size_sample)
  from cap_reached_within_one_page[OF st fit, of 0] sz show ?thesis
    by (auto simp: accumulated_def)
qed

text \<open>
  Claim C7: mapping a raw record never throws, also when the record has no
  \<^verbatim>\<open>properties\<close>. The code reads \<^verbatim>\<open>props.Status\<close> without a guard, so the record
  \<^verbatim>\<open>{"id": "page-1"}\<close> throws a \<^verbatim>\<open>TypeError\<close>.
\<close>

theorem missing_properties_throws:
  "map_task bare_record
     = Inl (TypeError ''Cannot read properties of undefined (reading 'Status')'')"
  by (simp add: map_task_def bare_record_def)

text \<open>With a \<^verbatim>\<open>properties\<close> object the mapping returns, with the defaults for what is missing.\<close>

lemma map_task_returns:
  "\<not> nullish t \<Longrightarrow> \<not> nullish (own t ''properties'') \<Longrightarrow> returns (map_task t)"
  by (simp add: map_task_def Let_def)

lemma map_task_defaults:
  "map_task (JObj [(''properties'', JObj [])]) =
     Inr \<lparr> task_id = JUndefined, idNumber = JNum 0, name = JStr ''Untitled'',
           status = JStr ''No Status'', priority = JStr ''Medium'', role = JStr ''Unassigned'',
           dueDate = JNull, pastDue = JBool False, summary = JStr [] \<rparr>"
  by (simp add: map_task_def js_or_def opt_def task_status_def)

text \<open>The server's copy of the function behaves alike.\<close>

lemma map_server_task_throws:
  "map_server_task bare_record
     = Inl (TypeError ''Cannot read properties of undefined (reading 'Status')'')"
  by (simp add: map_server_task_def map_task_def bare_record_def)

lemma server_cap_reached_within_one_page:
  assumes "\<forall>n c. steady_page map_server_task p (query n c)"
      and "p \<le> maxArgs"
  shows "\<exists>all n'. fetchAllNotionTasks_server maxArgs query n = Some (Inr all, n')
           \<and> 3000 \<le> length all \<and> length all < 3000 + p"
proof -
  have "\<exists>all n'. fetch_pages maxArgs map_server_task query n [] (JBool True) JNull
                   = Some (Inr all, n')
            \<and> 3000 \<le> length all \<and> length all < 3000 + p \<and> 1 dvd length all"
    by (rule fetch_pages_steady) (use assms in auto)
  then show ?thesis by (auto simp: fetchAllNotionTasks_server_def)
qed

section \<open>Properties of the cached statistics\<close>



text \<open>
  Claim C2: when the fetch of a refresh fails, the call still returns a payload: the
  cached one, unchanged, if there is a cache entry, and otherwise the baseline
  (total 1020, completed 562, inProgress 4, remaining 458, maxId 1020) with the
  failure's message as its error.
\<close>

theorem fetch_failure_fallback:
  assumes "cachedStats w = None \<or> \<not> now - cacheTime w < 300000"
      and "apiKey \<noteq> []"
      and "fetchAllNotionTasks maxArgs query (requests w) = Some (Inl e, n)"
  shows "\<exists>p w'. getDWEStats apiKey coerce maxArgs query now stamp w = Some (p, w')
           \<and> (\<forall>c. cachedStats w = Some c \<longrightarrow> p = c)
           \<and> (cachedStats w = None \<longrightarrow>
                total p = Some 1020 \<and> completed p = 562 \<and> inProgress p = 4
                \<and> remaining p = Some 458 \<and> maxId p = Some 1020
                \<and> error p = Some (message e))"
  using assms
  by (auto simp: getDWEStats_def CACHE_DURATION_def baseline_def split: option.splits)

theorem fetch_failure_fallback_witness:
  "\<exists>p w'. getDWEStats ''secret'' no_coercion sample_maxArgs failing 5000 5001 empty_widget = Some (p, w')
      \<and> total p = Some 1020 \<and> completed p = 562 \<and> inProgress p = 4
      \<and> remaining p = Some 458 \<and> maxId p = Some 1020
      \<and> error p = Some ''connect ECONNREFUSED''"
proof -
  have a: "cachedStats empty_widget = None \<or> \<not> 5000 - cacheTime empty_widget < 300000"
    by (simp add: empty_widget_def)
  have b: "''secret'' \<noteq> []" by simp
  have c: "fetchAllNotionTasks sample_maxArgs failing (requests empty_widget)
             = Some (Inl (FetchError ''connect ECONNREFUSED''), Suc (requests empty_widget))"
    by (rule fetch_failing)
  from fetch_failure_fallback[OF a b c, of no_coercion 5001] show ?thesis
    by (auto simp: empty_widget_def)
qed

text \<open>
  Claim C8, as stated: after a failed refresh the returned payload carries the error
  detail on the stale-cache path too. It fails there: with an entry cached at time 1000
  and a refresh at time 900000 whose request is refused, the cached payload comes back
  as it was stored, with no error field.
\<close>

theorem stale_fallback_no_error_counterexample:
  "fetchAllNotionTasks sample_maxArgs failing (requests stale_widget)
     = Some (Inl (FetchError ''connect ECONNREFUSED''), 2)
   \<and> getDWEStats ''secret'' no_coercion sample_maxArgs failing 900000 900001 stale_widget
     = Some (old_stats, stale_widget\<lparr>requests := 2\<rparr>)
   \<and> error old_stats = None"
  by (simp add: getDWEStats_def CACHE_DURATION_def fetch_failing stale_widget_def old_stats_def
        fresh_stats_def)

text \<open>
  Claim C8, amended: a failed refresh is never thrown to the caller; the failure's
  message is attached on the baseline path, when there is no cache entry; with a cache
  entry the cached payload is returned as it was stored.
\<close>

theorem failure_error_detail:
  assumes "cachedStats w = None \<or> \<not> now - cacheTime w < 300000"
      and "apiKey \<noteq> []"
      and "fetchAllNotionTasks maxArgs query (requests w) = Some (Inl e, n)"
  shows "getDWEStats apiKey coerce maxArgs query now stamp w =
           Some (case cachedStats w of
                   None \<Rightarrow> baseline (message e) stamp
                 | Some c \<Rightarrow> c,
                 w\<lparr>requests := n\<rparr>)
         \<and> error (baseline (message e) stamp) = Some (message e)"
  using assms
  by (auto simp: getDWEStats_def CACHE_DURATION_def baseline_def split: option.splits)

theorem failure_error_detail_witness:
  "getDWEStats ''secret'' no_coercion sample_maxArgs failing 5000 5001 empty_widget =
     Some (baseline ''connect ECONNREFUSED'' 5001, empty_widget\<lparr>requests := 1\<rparr>)
   \<and> error (baseline ''connect ECONNREFUSED'' 5001) = Some ''connect ECONNREFUSED''"
proof -
  have a: "cachedStats empty_widget = None \<or> \<not> 5000 - cacheTime empty_widget < 300000"
    by (simp add: empty_widget_def)
  have b: "''secret'' \<noteq> []" by simp
  have c: "fetchAllNotionTasks sample_maxArgs failing (requests empty_widget)
             = Some (Inl (FetchError ''connect ECONNREFUSED''), Suc (requests empty_widget))"
    by (rule fetch_failing)
  from failure_error_detail[OF a b c, of no_coercion 5001] show ?thesis
    by (simp add: empty_widget_def)
qed

text \<open>
  Claim C10: the payload of a successful refresh has \<open>total = maxId\<close> and
  \<open>remaining = total - completed\<close>, and it is the payload stored in the cache.
\<close>

theorem fresh_remaining:
  assumes "cachedStats w = None \<or> \<not> now - cacheTime w < 300000"
      and "apiKey \<noteq> []"
      and "fetchAllNotionTasks maxArgs query (requests w) = Some (Inr allTasks, n)"
  shows "\<exists>p w'. getDWEStats apiKey coerce maxArgs query now stamp w = Some (p, w')
           \<and> cachedStats w' = Some p
           \<and> total p = maxId p
           \<and> remaining p = num_sub (total p) (Some (int (completed p)))
           \<and> (\<forall>m. maxId p = Some m \<longrightarrow> remaining p = Some (m - int (completed p)))"
  using assms
  by (auto simp: getDWEStats_def CACHE_DURATION_def fresh_stats_def split: option.splits)

theorem fresh_remaining_witness:
  "\<exists>p w'. getDWEStats ''secret'' no_coercion sample_maxArgs last_page 5000 5001 empty_widget = Some (p, w')
      \<and> total p = Some 7 \<and> completed p = 1 \<and> remaining p = Some 6"
proof -
  have a: "cachedStats empty_widget = None \<or> \<not> 5000 - cacheTime empty_widget < 300000"
    by (simp add: empty_widget_def)
  have b: "''secret'' \<noteq> []" by simp
  obtain t where c: "fetchAllNotionTasks sample_maxArgs last_page (requests empty_widget)
             = Some (Inr [t], Suc (requests empty_widget))"
    using fetch_last_page[of sample_maxArgs] by (auto simp: sample_maxArgs_def)
  then have "fetchAllNotionTasks sample_maxArgs last_page 0 = Some (Inr [t], 1)" by (simp add: empty_widget_def)
  then have "fetch_pages sample_maxArgs map_task last_page 0 [] (JBool True) JNull = Some (Inr [t], 1)"
    by (simp add: fetchAllNotionTasks_def)
  then have t: "map_task sample_record = Inr t"
    by (subst (asm) fetch_pages.simps, subst (asm) fetch_pages.simps)
       (auto simp: last_page_def page_tasks_def push_all_def split: sum.splits if_splits)
  then have "idNumber t = JNum 7" "status t = JStr ''Done''"
    by (auto simp: map_task_def sample_record_def js_or_def opt_def task_status_def)
  then have m: "max_id no_coercion [t] = Some 7" "is_completed t"
    by (simp_all add: max_id_def js_or_def is_completed_def)
  have g: "getDWEStats ''secret'' no_coercion sample_maxArgs last_page 5000 5001 empty_widget
             = Some (fresh_stats no_coercion [t] 5001,
                     empty_widget\<lparr>cachedStats := Some (fresh_stats no_coercion [t] 5001),
                       cacheTime := 5000, requests := Suc (requests empty_widget)\<rparr>)"
    using c by (simp add: getDWEStats_def empty_widget_def)
  from fresh_remaining[OF a b c, of no_coercion 5001] obtain p w' where
      p: "getDWEStats ''secret'' no_coercion sample_maxArgs last_page 5000 5001 empty_widget = Some (p, w')"
         "total p = maxId p" "remaining p = num_sub (total p) (Some (int (completed p)))"
    by blast
  from p(1) g have "p = fresh_stats no_coercion [t] 5001" by simp
  with m have tc: "total p = Some 7" "completed p = 1" by (simp_all add: fresh_stats_def)
  with p(3) have "remaining p = Some 6" by simp
  with p(1) tc show ?thesis by blast
qed

section \<open>Properties of the next-run label\<close>

lemma split_ws_field:
  assumes "\<forall>c\<in>set f. \<not> is_space c" and "rest \<noteq> []" and "\<not> is_space (hd rest)"
  shows "split_ws (f @ CHR '' '' # rest) = f # split_ws rest"
  using assms
proof (induction f)
  case Nil
  then show ?case by (simp add: is_space_def)
next
  case (Cons c f)
  then show ?case by simp
qed

lemma split_ws_stars: "split_ws ''* * * *'' = [''*'', ''*'', ''*'', ''*'']"
  by code_simp

lemma split_ws_minute_schedule:
  assumes "\<forall>c\<in>set minute. \<not> is_space c"
  shows "split_ws (minute @ '' * * * *'') = [minute, ''*'', ''*'', ''*'', ''*'']"
proof -
  have a: "''* * * *'' \<noteq> []" by simp
  have b: "\<not> is_space (hd ''* * * *'')" by code_simp
  from split_ws_field[OF assms a b] show ?thesis unfolding split_ws_stars .
qed

lemma hour_start: "Day t * msPerDay + HourFromTime t * 3600000 = t div 3600000 * 3600000"
proof -
  have "t div 86400000 = t div 3600000 div 24"
    using zdiv_zmult2_eq[of 24 t 3600000] by simp
  then show ?thesis
    unfolding Day_def msPerDay_def HourFromTime_def
    using div_mult_mod_eq[of "t div 3600000" 24] by linarith
qed

lemma within_minute: "SecFromTime t * 1000 + msFromTime t = t mod 60000"
  unfolding SecFromTime_def msFromTime_def
  using zmod_zmult2_eq[of 60 t 1000] by simp

lemma within_hour: "MinFromTime t * 60000 + t mod 60000 = t mod 3600000"
  unfolding MinFromTime_def
  using zmod_zmult2_eq[of 60 t 60000] by simp

lemma field_sum:
  fixes D :: int
  assumes "D + H * 3600000 = q * 3600000" and "S * 1000 + ms = r"
  shows "D + (H * 3600000 + m * 60000 + S * 1000 + ms) = q * 3600000 + m * 60000 + r"
  using assms by linarith

lemma setMinutes_eq:
  "setMinutes (Some t) (Some m) = TimeClip (t div 3600000 * 3600000 + m * 60000 + t mod 60000)"
  by (simp only: setMinutes.simps field_sum[OF hour_start within_minute])

lemma hour_sum:
  fixes D :: int
  assumes "D + H * 3600000 = q * 3600000" and "S * 1000 + ms = r" and "M * 60000 + r = r'"
      and "q * 3600000 + r' = t"
  shows "D + ((H + 1) * 3600000 + M * 60000 + S * 1000 + ms) = t + 3600000"
proof -
  have "(H + 1) * 3600000 = H * 3600000 + 3600000" by (simp add: algebra_simps)
  with assms show ?thesis by linarith
qed

lemma setHours_succ:
  "setHours (Some t) (num_add (getHours (Some t)) (Some 1)) = TimeClip (t + 3600000)"
proof -
  have "getHours (Some t) = Some (HourFromTime t)" by (simp add: getHours_def)
  then show ?thesis
    by (simp only: num_add.simps setHours.simps
          hour_sum[OF hour_start within_minute within_hour div_mult_mod_eq])
qed

lemma candidate_minute_only:
  "candidate [minute, ''*'', ''*'', ''*'', ''*''] now = fst (minute_step minute now (Some now))"
  by (simp add: candidate_def hour_step_def dow_step_def startsWith_def split: prod.splits)

lemma next_multiple:
  fixes N m :: int
  assumes "0 < N"
  shows "N dvd m div N * N + N" "m < m div N * N + N" "m div N * N + N \<le> m + N"
proof -
  show "N dvd m div N * N + N" by simp
  have "m = m div N * N + m mod N" by simp
  moreover have "0 \<le> m mod N" "m mod N < N" using assms by simp_all
  ultimately show "m < m div N * N + N" "m div N * N + N \<le> m + N" by linarith+
qed

lemma minute_range: "0 \<le> MinFromTime t \<and> MinFromTime t < 60"
  by (simp add: MinFromTime_def)

lemma minute_step_interval:
  assumes sw: "startsWith minute ''*/''"
      and pi: "parseInt (replace_first minute ''*/'' []) = Some N"
      and N: "0 < N"
      and lo: "- 8640000000000000 \<le> now"
      and hi: "now + (N + 60) * 60000 \<le> 8640000000000000"
  shows "fst (minute_step minute now (Some now)) =
     Some (if MinFromTime now div N * N + N < 60
           then now div 3600000 * 3600000 + (MinFromTime now div N * N + N) * 60000 + now mod 60000
           else (now div 3600000 + 1) * 3600000 + (MinFromTime now div N * N + N - 60) * 60000
                  + now mod 60000)"
proof -
  define M where "M = MinFromTime now"
  define nm where "nm = M div N * N + N"
  define q where "q = now div 3600000"
  define r where "r = now mod 60000"
  have hi': "now + N * 60000 + 3600000 \<le> 8640000000000000" using hi by (simp add: algebra_simps)
  have nm: "M < nm" "nm \<le> M + N" using next_multiple[OF N, of M] by (simp_all add: nm_def)
  have M: "0 \<le> M" "M < 60" using minute_range[of now] by (simp_all add: M_def)
  have dec: "now = q * 3600000 + M * 60000 + r"
    using within_hour[of now] div_mult_mod_eq[of now 3600000] unfolding M_def q_def r_def
    by linarith
  have nmo: "nextMin_of (Some N) (MinFromTime now) = Some nm"
    using N by (simp add: nextMin_of_def nm_def M_def)
  show ?thesis
  proof (cases "nm < 60")
    case True
    have "- 8640000000000000 \<le> q * 3600000 + nm * 60000 + r"
      using dec nm M lo by linarith
    moreover have "q * 3600000 + nm * 60000 + r \<le> 8640000000000000"
      using dec nm M hi' by linarith
    ultimately
    have "TimeClip (q * 3600000 + nm * 60000 + r) = Some (q * 3600000 + nm * 60000 + r)"
      by (simp add: TimeClip_def abs_le_iff)
    with True sw pi nmo show ?thesis
      unfolding nm_def[symmetric] M_def[symmetric]
      by (simp add: minute_step_def setMinutes_eq q_def r_def nm_def M_def del: setMinutes.simps)
  next
    case False
    have c1: "TimeClip (now + 3600000) = Some (now + 3600000)"
      using lo hi N by (simp add: TimeClip_def abs_le_iff)
    have d: "(now + 3600000) div 3600000 = q + 1" "(now + 3600000) mod 60000 = r"
    proof -
      show "(now + 3600000) div 3600000 = q + 1" unfolding q_def by simp
      have "(now + 60 * 60000) mod 60000 = now mod 60000" by (rule mod_mult_self1)
      then show "(now + 3600000) mod 60000 = r" unfolding r_def by simp
    qed
    have ex: "(q + 1) * 3600000 + (nm - 60) * 60000 + r = q * 3600000 + nm * 60000 + r"
      by (simp add: algebra_simps)
    have "- 8640000000000000 \<le> q * 3600000 + nm * 60000 + r"
      using dec nm M lo by linarith
    moreover have "q * 3600000 + nm * 60000 + r \<le> 8640000000000000"
      using dec nm M hi' by linarith
    ultimately have c2: "TimeClip ((q + 1) * 3600000 + (nm - 60) * 60000 + r)
                 = Some ((q + 1) * 3600000 + (nm - 60) * 60000 + r)"
      by (simp only: ex) (simp add: TimeClip_def abs_le_iff)
    have "fst (minute_step minute now (Some now))
            = setMinutes (setHours (Some now) (num_add (getHours (Some now)) (Some 1)))
                (Some (nm - 60))"
      using False sw pi nmo by (simp add: minute_step_def)
    also have "\<dots> = setMinutes (Some (now + 3600000)) (Some (nm - 60))"
      by (simp only: setHours_succ c1)
    also have "\<dots> = Some ((q + 1) * 3600000 + (nm - 60) * 60000 + r)"
      by (simp only: setMinutes_eq d c2)
    finally show ?thesis using False by (simp add: q_def r_def nm_def M_def)
  qed
qed

lemma minute_of_fields:
  assumes "0 \<le> m" "m < 60" "0 \<le> r" "r < 60000"
  shows "MinFromTime (q * 3600000 + m * 60000 + r) = m"
    and "(q * 3600000 + m * 60000 + r) div 3600000 = q"
proof -
  have e: "q * 3600000 + m * 60000 + r = (q * 60 + m) * 60000 + r" by (simp add: algebra_simps)
  have "((q * 60 + m) * 60000 + r) div 60000 = q * 60 + m" using assms(3,4) by simp
  then show "MinFromTime (q * 3600000 + m * 60000 + r) = m"
    using assms(1,2) by (simp only: e MinFromTime_def) simp
  have "0 \<le> m * 60000 + r" "m * 60000 + r < 3600000" using assms by linarith+
  then have "(q * 3600000 + (m * 60000 + r)) div 3600000 = q" by simp
  then show "(q * 3600000 + m * 60000 + r) div 3600000 = q" by (simp add: add.assoc)
qed

text \<open>
  Claim C6: for a minute field \<^verbatim>\<open>*/N\<close> with the other fields \<^verbatim>\<open>*\<close>, the candidate
  minute is the current minute rounded up to the next multiple of \<open>N\<close>: below 60 it is
  set within the current hour; from 60 on the candidate moves into the next hour, with
  the minutes less 60. The seconds are those of now. So \<^verbatim>\<open>*/15 * * * *\<close> gives
  10:15 at 10:07, and 11:00 at 10:52.
\<close>

theorem minute_interval:
  "(startsWith minute ''*/'' \<and> parseInt (replace_first minute ''*/'' []) = Some N \<and> 0 < N
      \<and> (\<forall>c\<in>set minute. \<not> is_space c)
      \<and> - 8640000000000000 \<le> now \<and> now + (N + 60) * 60000 \<le> 8640000000000000
    \<longrightarrow> (let nextMin = MinFromTime now div N * N + N;
             schedule = minute @ '' * * * *''
         in N dvd nextMin \<and> MinFromTime now < nextMin \<and> nextMin \<le> MinFromTime now + N
          \<and> calculateNextRun schedule now = format_label now (candidate (split_ws schedule) now)
          \<and> (\<exists>t. candidate (split_ws schedule) now = Some t
                \<and> t mod 60000 = now mod 60000
                \<and> (nextMin < 60 \<longrightarrow>
                      t div 3600000 = now div 3600000 \<and> MinFromTime t = nextMin)
                \<and> (60 \<le> nextMin \<longrightarrow>
                      t = (now div 3600000 + 1) * 3600000 + (nextMin - 60) * 60000 + now mod 60000)
                \<and> (60 \<le> nextMin \<and> nextMin < 120 \<longrightarrow>
                      t div 3600000 = now div 3600000 + 1 \<and> MinFromTime t = nextMin - 60))))
   \<and> HourFromTime monday_1007 = 10 \<and> MinFromTime monday_1007 = 7
   \<and> calculateNextRun ''*/15 * * * *'' monday_1007 = ''10:15am''
   \<and> HourFromTime monday_1052 = 10 \<and> MinFromTime monday_1052 = 52
   \<and> calculateNextRun ''*/15 * * * *'' monday_1052 = ''11:00am''"
proof (intro conjI impI)
  assume a: "startsWith minute ''*/'' \<and> parseInt (replace_first minute ''*/'' []) = Some N \<and> 0 < N
      \<and> (\<forall>c\<in>set minute. \<not> is_space c)
      \<and> - 8640000000000000 \<le> now \<and> now + (N + 60) * 60000 \<le> 8640000000000000"
  define nextMin where "nextMin = MinFromTime now div N * N + N"
  define q where "q = now div 3600000"
  define r where "r = now mod 60000"
  have r: "0 \<le> r" "r < 60000" by (simp_all add: r_def)
  from a have N: "0 < N" by simp
  have nm: "N dvd nextMin" "MinFromTime now < nextMin" "nextMin \<le> MinFromTime now + N"
    using next_multiple[OF N, of "MinFromTime now"] by (simp_all add: nextMin_def)
  have M: "0 \<le> MinFromTime now" using minute_range[of now] by simp
  from a have sp: "split_ws (minute @ '' * * * *'') = [minute, ''*'', ''*'', ''*'', ''*'']"
    by (simp add: split_ws_minute_schedule)
  have cand: "candidate (split_ws (minute @ '' * * * *'')) now =
     Some (if nextMin < 60 then q * 3600000 + nextMin * 60000 + r
           else (q + 1) * 3600000 + (nextMin - 60) * 60000 + r)"
    unfolding sp candidate_minute_only nextMin_def q_def r_def
    using a by (intro minute_step_interval) simp_all
  have lab: "calculateNextRun (minute @ '' * * * *'') now
               = format_label now (candidate (split_ws (minute @ '' * * * *'')) now)"
    by (simp add: calculateNextRun_def sp)
  define t where "t = (if nextMin < 60 then q * 3600000 + nextMin * 60000 + r
           else (q + 1) * 3600000 + (nextMin - 60) * 60000 + r)"
  have t1: "t mod 60000 = now mod 60000"
  proof -
    have "t = r + (if nextMin < 60 then q * 60 + nextMin else (q + 1) * 60 + (nextMin - 60)) * 60000"
      by (simp add: t_def algebra_simps)
    then have "t mod 60000 = r mod 60000" by (simp only: mod_mult_self1)
    then show ?thesis by (simp add: r_def)
  qed
  have t2: "nextMin < 60 \<longrightarrow> t div 3600000 = now div 3600000 \<and> MinFromTime t = nextMin"
    using minute_of_fields[of nextMin r q] nm M r by (auto simp: t_def q_def)
  have t3: "60 \<le> nextMin \<longrightarrow>
       t = (now div 3600000 + 1) * 3600000 + (nextMin - 60) * 60000 + now mod 60000"
    by (simp add: t_def q_def r_def)
  have t4: "60 \<le> nextMin \<and> nextMin < 120 \<longrightarrow>
       t div 3600000 = now div 3600000 + 1 \<and> MinFromTime t = nextMin - 60"
    using minute_of_fields[of "nextMin - 60" r "q + 1"] r by (auto simp: t_def q_def)
  from cand have "candidate (split_ws (minute @ '' * * * *'')) now = Some t" by (simp add: t_def)
  with t1 t2 t3 t4 nm lab
  show "let nextMin = MinFromTime now div N * N + N;
             schedule = minute @ '' * * * *''
         in N dvd nextMin \<and> MinFromTime now < nextMin \<and> nextMin \<le> MinFromTime now + N
          \<and> calculateNextRun schedule now = format_label now (candidate (split_ws schedule) now)
          \<and> (\<exists>t. candidate (split_ws schedule) now = Some t
                \<and> t mod 60000 = now mod 60000
                \<and> (nextMin < 60 \<longrightarrow>
                      t div 3600000 = now div 3600000 \<and> MinFromTime t = nextMin)
                \<and> (60 \<le> nextMin \<longrightarrow>
                      t = (now div 3600000 + 1) * 3600000 + (nextMin - 60) * 60000 + now mod 60000)
                \<and> (60 \<le> nextMin \<and> nextMin < 120 \<longrightarrow>
                      t div 3600000 = now div 3600000 + 1 \<and> MinFromTime t = nextMin - 60))"
    unfolding Let_def nextMin_def[symmetric] by blast
qed code_simp+

theorem minute_interval_witness:
  "candidate (split_ws ''*/15 * * * *'') monday_1052 = Some (monday_1052 + 8 * 60000)
   \<and> HourFromTime (monday_1052 + 8 * 60000) = 11 \<and> MinFromTime (monday_1052 + 8 * 60000) = 0"
proof -
  have h: "startsWith ''*/15'' ''*/'' \<and> parseInt (replace_first ''*/15'' ''*/'' []) = Some 15
      \<and> 0 < (15::int) \<and> (\<forall>c\<in>set ''*/15''. \<not> is_space c)
      \<and> - 8640000000000000 \<le> monday_1052
      \<and> monday_1052 + (15 + 60) * 60000 \<le> 8640000000000000"
    by code_simp
  have m: "MinFromTime monday_1052 div 15 * 15 + 15 = 60" "monday_1052 div 3600000 = 473362"
      "monday_1052 mod 60000 = 0"
    by code_simp+
  from minute_interval[of "''*/15''" 15 monday_1052] h
  have "\<exists>t. candidate (split_ws (''*/15'' @ '' * * * *'')) monday_1052 = Some t
          \<and> t = (monday_1052 div 3600000 + 1) * 3600000
                  + (MinFromTime monday_1052 div 15 * 15 + 15 - 60) * 60000
                  + monday_1052 mod 60000"
    unfolding Let_def m by auto
  then have "candidate (split_ws ''*/15 * * * *'') monday_1052 = Some (473363 * 3600000)"
    unfolding m by simp
  moreover have "473363 * 3600000 = monday_1052 + 8 * 60000"
    "HourFromTime (monday_1052 + 8 * 60000) = 11" "MinFromTime (monday_1052 + 8 * 60000) = 0"
    by code_simp+
  ultimately show ?thesis by simp
qed

text \<open>Every label has a colon, which \<^verbatim>\<open>Unknown\<close> has not.\<close>

lemma colon_in_label: "CHR '':'' \<in> set (format_label now next)"
  by (simp add: format_label_def)

text \<open>
  Claim C5, as stated: every schedule whose field count is not 5 gives \<^verbatim>\<open>Unknown\<close>.
  It fails for more than five fields: the guard is \<^verbatim>\<open>parts.length < 5\<close>, and a
  schedule of six fields is read by its first five.
\<close>

theorem six_fields_counterexample:
  "length (split_ws ''0 0 9 * * 1'') = 6
   \<and> calculateNextRun ''0 0 9 * * 1'' monday_1400 \<noteq> ''Unknown''"
  by code_simp

text \<open>
  Claim C5, amended: the result is \<^verbatim>\<open>Unknown\<close> exactly for the schedules that split
  into fewer than 5 fields; with 5 fields or more it is a label, never \<^verbatim>\<open>Unknown\<close>.
\<close>

theorem unknown_iff_fewer_than_five:
  "calculateNextRun schedule now = ''Unknown'' \<longleftrightarrow> length (split_ws schedule) < 5"
proof (cases "length (split_ws schedule) < 5")
  case True
  then show ?thesis by (simp add: calculateNextRun_def)
next
  case False
  have "format_label now (candidate (split_ws schedule) now) \<noteq> ''Unknown''"
  proof
    assume "format_label now (candidate (split_ws schedule) now) = ''Unknown''"
    with colon_in_label[of now "candidate (split_ws schedule) now"]
    show False by simp
  qed
  with False show ?thesis by (simp add: calculateNextRun_def)
qed

theorem unknown_iff_fewer_than_five_witness:
  "length (split_ws ''0 9 * *'') = 4 \<and> calculateNextRun ''0 9 * *'' monday_1400 = ''Unknown''"
proof -
  have l: "length (split_ws ''0 9 * *'') = 4" by code_simp
  with unknown_iff_fewer_than_five[of "''0 9 * *''" monday_1400] show ?thesis by simp
qed

text \<open>
  Claim C4: for the schedule \<^verbatim>\<open>0 9 * * 1\<close> on a Monday at 14:00 the label denotes
  the Monday a week later, with the weekday's name. The code gives something else: the
  hour step has already moved the candidate to Tuesday 9:00, which is after now, so the
  day-of-week step adds its distance of 0 days, and the label is \<^verbatim>\<open>Tomorrow 9:00am\<close>.
\<close>

theorem monday_schedule_gives_tuesday:
  "WeekDay monday_1400 = 1 \<and> HourFromTime monday_1400 = 14 \<and> MinFromTime monday_1400 = 0
   \<and> candidate (split_ws ''0 9 * * 1'') monday_1400 = Some (monday_1400 + 19 * 3600000)
   \<and> Day (monday_1400 + 19 * 3600000) = Day monday_1400 + 1
   \<and> WeekDay (monday_1400 + 19 * 3600000) = 2
   \<and> calculateNextRun ''0 9 * * 1'' monday_1400 = ''Tomorrow 9:00am''"
  by code_simp

text \<open>
  Claim C9: the day prefix is \<^verbatim>\<open>Tomorrow\<close> whenever the candidate is one calendar
  day ahead, also across the end of a month. The code compares the day of the month
  with today's plus one and no month, so on 31 January at 14:00 the schedule
  \<^verbatim>\<open>0 9 * * *\<close>, whose candidate is 1 February 9:00, is labelled with the weekday.
\<close>

theorem month_end_tomorrow_gets_weekday:
  "civil_from_days (Day jan31_1400) = (2024, 0, 31)
   \<and> candidate (split_ws ''0 9 * * *'') jan31_1400 = Some (jan31_1400 + 19 * 3600000)
   \<and> Day (jan31_1400 + 19 * 3600000) = Day jan31_1400 + 1
   \<and> civil_from_days (Day (jan31_1400 + 19 * 3600000)) = (2024, 1, 1)
   \<and> calculateNextRun ''0 9 * * *'' jan31_1400 = ''Thu 9:00am''"
  by code_simp

end
